theory Spec2Isabelle
  imports Complex_Main "HOL-Library.Char_ord" "HOL-Library.List_Lexorder"
begin

section \<open>Daily price history: incremental sync, upsert and staleness sweep\<close>

text \<open>
  The development follows the two scripts \<^verbatim>\<open>download_data.py\<close> and
  \<^verbatim>\<open>remove_abondoned_data.py\<close>. Calendar dates are day numbers (\<open>int\<close>), so that
  \<^verbatim>\<open>(today - last_date).days\<close> is integer subtraction. What the scripts take from
  libraries and from the outside world is a parameter of the model, collected in the
  record \<open>env\<close>: how pandas parses a stored date text, how it prints a value as a
  string, whether \<^verbatim>\<open>astype(str)\<close> keeps a missing value missing (pandas 3) or
  prints it (pandas 1 and 2), what the market-data provider returns, and which
  statements the database refuses.
\<close>

subsection \<open>Values, errors, rows\<close>

text \<open>
  A \<open>cell\<close> is one Python value as it sits in a DataFrame or in a parameter dictionary:
  a number, a string, a timestamp, or one of the four null-like values that
  \<^verbatim>\<open>pd.isna\<close> recognises (\<^verbatim>\<open>float('nan')\<close>, \<^verbatim>\<open>pd.NaT\<close>, \<^verbatim>\<open>pd.NA\<close>, \<^verbatim>\<open>None\<close>).
\<close>

datatype cell = Num real | Str string | Stamp int | NaN | NaT | NA | PyNone

datatype error =
  KeyError | NameError | ParseError | OperationalError | FetchError | ValueError | TypeError

text \<open>
  One row of the table \<^verbatim>\<open>stock_data\<close>, with the columns of the
  \<^verbatim>\<open>CREATE TABLE\<close> statement. A field holds the value that was bound to the
  statement; \<open>PyNone\<close> is SQL \<^verbatim>\<open>NULL\<close>.
\<close>

record stock_row =
  ticker :: cell
  date :: cell
  openp :: cell
  high :: cell
  low :: cell
  closep :: cell
  adj_close :: cell
  volume :: cell

text \<open>
  The database file: the table \<^verbatim>\<open>stock_data\<close> and the optional table
  \<^verbatim>\<open>tickers\<close> (its \<^verbatim>\<open>symbol\<close> column); \<open>None\<close> is a table that does not exist.
\<close>

record database =
  stock_data :: "stock_row list option"
  tickers :: "string list option"

text \<open>
  A DataFrame: the column labels and the rows. A row gives a cell for every label; only
  the labels listed in \<open>columns\<close> belong to the frame.
\<close>

record dataframe =
  columns :: "string list"
  rows :: "(string \<Rightarrow> cell) list"

text \<open>
  What \<^verbatim>\<open>yf.download(..., interval='1d')\<close> returns: a frame whose index is named
  \<^verbatim>\<open>Date\<close> and holds the day of each bar, a timestamp that is never null. A row is
  its index day and its cells.
\<close>

record bars =
  bar_columns :: "string list"
  bar_rows :: "(int \<times> (string \<Rightarrow> cell)) list"

record env =
  to_datetime :: "string \<Rightarrow> int option"
  str_repr :: "cell \<Rightarrow> string"
  astype_keeps_missing :: bool
  yf_download :: "cell \<Rightarrow> int \<Rightarrow> int \<Rightarrow> error + bars"
  db_fails :: "stock_row list \<Rightarrow> stock_row \<Rightarrow> bool"

subsection \<open>Configuration constants\<close>

definition years :: int where
  "years = 20"

definition abandon_days :: int where
  "abandon_days = 180"

definition cutoff_days :: int where
  "cutoff_days = 180"

definition start_full :: "int \<Rightarrow> int" where
  "start_full today = today - years * 365"

subsection \<open>pandas operations\<close>

fun pd_isna :: "cell \<Rightarrow> bool" where
  "pd_isna NaN = True"
| "pd_isna NaT = True"
| "pd_isna NA = True"
| "pd_isna PyNone = True"
| "pd_isna (Num x) = False"
| "pd_isna (Str s) = False"
| "pd_isna (Stamp d) = False"

definition pd_notnull :: "cell \<Rightarrow> bool" where
  "pd_notnull c = (\<not> pd_isna c)"

text \<open>
  \<^verbatim>\<open>astype(str)\<close> on one value: a string stays, numbers and timestamps print as
  the library does (\<open>str_repr\<close>). A null-like value depends on the pandas at hand: pandas
  1 and 2 print it (\<^verbatim>\<open>'nan'\<close>, \<^verbatim>\<open>'NaT'\<close>, \<^verbatim>\<open>'<NA>'\<close>, \<^verbatim>\<open>'None'\<close>), pandas 3
  keeps it as the missing value of the string type.
\<close>

definition astype_str :: "env \<Rightarrow> cell \<Rightarrow> cell" where
  "astype_str e c =
     (case c of
        Str s \<Rightarrow> Str s
      | Num x \<Rightarrow> Str (str_repr e c)
      | Stamp d \<Rightarrow> Str (str_repr e c)
      | NaN \<Rightarrow> if astype_keeps_missing e then NaN else Str ''nan''
      | NaT \<Rightarrow> if astype_keeps_missing e then NaN else Str ''NaT''
      | NA \<Rightarrow> if astype_keeps_missing e then NaN else Str ''<NA>''
      | PyNone \<Rightarrow> if astype_keeps_missing e then NaN else Str ''None'')"

definition df_empty :: "dataframe \<Rightarrow> bool" where
  "df_empty df = (rows df = [] \<or> columns df = [])"

definition bars_empty :: "bars \<Rightarrow> bool" where
  "bars_empty b = (bar_rows b = [] \<or> bar_columns b = [])"

text \<open>
  \<^verbatim>\<open>df.reset_index(inplace=True)\<close>: the index becomes the first column, under its
  name. pandas refuses to insert a label the frame already has; that case is a branch
  of \<open>reconcile\<close> below.
\<close>

definition reset_index :: "bars \<Rightarrow> dataframe" where
  "reset_index b =
     \<lparr>columns = ''Date'' # bar_columns b,
      rows = map (\<lambda>(d, r). r(''Date'' := Stamp d)) (bar_rows b)\<rparr>"

text \<open>\<^verbatim>\<open>df[col] = v\<close>: overwrite the column, or append it when the label is new.\<close>

definition set_column :: "string \<Rightarrow> cell \<Rightarrow> dataframe \<Rightarrow> dataframe" where
  "set_column col v df =
     df\<lparr>columns := (if col \<in> set (columns df) then columns df else columns df @ [col]),
        rows := map (\<lambda>r. r(col := v)) (rows df)\<rparr>"

definition rename_label :: "string \<Rightarrow> string" where
  "rename_label c =
     (if c = ''Date'' then ''date''
      else if c = ''Open'' then ''open''
      else if c = ''High'' then ''high''
      else if c = ''Low'' then ''low''
      else if c = ''Close'' then ''close''
      else if c = ''Adj Close'' then ''adj_close''
      else if c = ''Volume'' then ''volume''
      else c)"

text \<open>
  \<^verbatim>\<open>df.rename(columns=...)\<close>: every label is mapped; the cell under a new label is
  the cell of the old column that carries it (of the first one, when two old labels
  are mapped to the same new label; \<open>upsert_to_db\<close> raises for such a frame).
\<close>

definition rename_columns :: "dataframe \<Rightarrow> dataframe" where
  "rename_columns df =
     df\<lparr>columns := map rename_label (columns df),
        rows := map (\<lambda>r c. case find (\<lambda>old. rename_label old = c) (columns df) of
                               Some old \<Rightarrow> r old
                             | None \<Rightarrow> r c) (rows df)\<rparr>"

definition expected_cols :: "string list" where
  "expected_cols =
     [''ticker'', ''date'', ''open'', ''high'', ''low'', ''close'', ''adj_close'', ''volume'']"

text \<open>The loop \<^verbatim>\<open>for col in expected_cols: if col not in df.columns: df[col] = pd.NA\<close>.\<close>

fun add_missing :: "string list \<Rightarrow> dataframe \<Rightarrow> dataframe" where
  "add_missing [] df = df"
| "add_missing (col # cols) df =
     add_missing cols (if col \<notin> set (columns df) then set_column col NA df else df)"

definition select_columns :: "string list \<Rightarrow> dataframe \<Rightarrow> dataframe" where
  "select_columns cols df = df\<lparr>columns := cols\<rparr>"

definition date_astype_str :: "env \<Rightarrow> dataframe \<Rightarrow> dataframe" where
  "date_astype_str e df =
     df\<lparr>rows := map (\<lambda>r. r(''date'' := astype_str e (r ''date''))) (rows df)\<rparr>"

text \<open>
  \<^verbatim>\<open>df.where(pd.notnull(df), None)\<close>. Some pandas versions keep \<^verbatim>\<open>NaN\<close> in a
  float column here; the pass over the parameters below sets it to \<^verbatim>\<open>None\<close> all the
  same.
\<close>

definition where_notnull :: "dataframe \<Rightarrow> dataframe" where
  "where_notnull df =
     df\<lparr>rows := map (\<lambda>r c. if pd_notnull (r c) then r c else PyNone) (rows df)\<rparr>"

subsection \<open>The reconciler: \<^verbatim>\<open>upsert_to_db\<close>\<close>

text \<open>
  One entry of the parameter dictionary: \<^verbatim>\<open>.item()\<close> turns a numpy scalar into the
  Python number of the same value, which is the same \<open>cell\<close>; then a value that
  \<^verbatim>\<open>pd.isna\<close> still recognises is set to \<^verbatim>\<open>None\<close>.
\<close>

definition param :: "(string \<Rightarrow> cell) \<Rightarrow> string \<Rightarrow> cell" where
  "param row col = (let v = row col in if pd_isna v then PyNone else v)"

definition params_of :: "(string \<Rightarrow> cell) \<Rightarrow> stock_row" where
  "params_of row =
     \<lparr>ticker = param row ''ticker'', date = param row ''date'',
      openp = param row ''open'', high = param row ''high'', low = param row ''low'',
      closep = param row ''close'', adj_close = param row ''adj_close'',
      volume = param row ''volume''\<rparr>"

definition normalize :: "env \<Rightarrow> dataframe \<Rightarrow> dataframe" where
  "normalize e df =
     where_notnull (date_astype_str e
       (select_columns expected_cols (add_missing expected_cols (rename_columns df))))"

text \<open>
  When one of the expected labels is carried by two columns, \<^verbatim>\<open>row[col]\<close> is a
  Series and \<^verbatim>\<open>.item()\<close> raises \<^verbatim>\<open>ValueError\<close> on the first row, before any
  statement is executed.
\<close>

definition label_clash :: "dataframe \<Rightarrow> bool" where
  "label_clash df =
     list_ex (\<lambda>c. 1 < count_list (map rename_label (columns df)) c) expected_cols"

text \<open>
  The parameter dictionaries the loop builds, one for each row of the frame; none when
  the labels clash.
\<close>

definition params_list :: "env \<Rightarrow> dataframe \<Rightarrow> stock_row list" where
  "params_list e df =
     (if label_clash df then [] else map params_of (rows (normalize e df)))"

definition key :: "stock_row \<Rightarrow> cell \<times> cell" where
  "key r = (ticker r, date r)"

text \<open>
  \<^verbatim>\<open>INSERT OR REPLACE\<close> under \<^verbatim>\<open>PRIMARY KEY (ticker, date)\<close>: the rows that
  conflict with the new one are deleted, then the new row is inserted. In SQLite a
  \<^verbatim>\<open>NULL\<close> in a key column conflicts with nothing.
\<close>

definition insert_or_replace :: "stock_row \<Rightarrow> stock_row list \<Rightarrow> stock_row list" where
  "insert_or_replace r t =
     (if ticker r = PyNone \<or> date r = PyNone then t @ [r]
      else filter (\<lambda>x. key x \<noteq> key r) t @ [r])"

text \<open>The loop over \<^verbatim>\<open>df.iterrows()\<close>; a statement the database refuses raises.\<close>

fun execute_rows ::
  "(stock_row list \<Rightarrow> stock_row \<Rightarrow> bool) \<Rightarrow> stock_row list \<Rightarrow> stock_row list
     \<Rightarrow> error + stock_row list" where
  "execute_rows fails [] t = Inr t"
| "execute_rows fails (p # ps) t =
     (if fails t p then Inl OperationalError
      else execute_rows fails ps (insert_or_replace p t))"

text \<open>
  \<^verbatim>\<open>with engine.begin() as conn:\<close> commits when the block ends and rolls back when
  it raises; the exception goes on to the caller.
\<close>

definition engine_begin ::
  "('s \<Rightarrow> error + 's) \<Rightarrow> 's \<Rightarrow> 's \<times> (error + cell)" where
  "engine_begin body t =
     (case body t of Inl e \<Rightarrow> (t, Inl e) | Inr t' \<Rightarrow> (t', Inr PyNone))"

text \<open>
  \<^verbatim>\<open>upsert_to_db(df)\<close>: the new table and what the call gives back, an exception or
  the returned value. Both \<^verbatim>\<open>return\<close> paths of the function return \<^verbatim>\<open>None\<close>.
\<close>

definition upsert_to_db ::
  "env \<Rightarrow> dataframe \<Rightarrow> stock_row list \<Rightarrow> stock_row list \<times> (error + cell)" where
  "upsert_to_db e df t =
     (if df_empty df then (t, Inr PyNone)
      else engine_begin
             (\<lambda>t. if label_clash df then Inl ValueError
                  else execute_rows (db_fails e) (params_list e df) t) t)"

text \<open>
  The end of the loop body: \<^verbatim>\<open>df.reset_index(inplace=True)\<close>,
  \<^verbatim>\<open>df['ticker'] = ticker\<close>, \<^verbatim>\<open>upsert_to_db(df)\<close>. This is the reconciler
  applied to the bars fetched for one symbol. \<^verbatim>\<open>reset_index\<close> raises
  \<^verbatim>\<open>ValueError\<close> when the frame already has a column \<^verbatim>\<open>Date\<close>.
\<close>

definition stamp_ticker :: "cell \<Rightarrow> bars \<Rightarrow> dataframe" where
  "stamp_ticker tk df = set_column ''ticker'' tk (reset_index df)"

definition reconcile ::
  "env \<Rightarrow> cell \<Rightarrow> bars \<Rightarrow> stock_row list \<Rightarrow> stock_row list \<times> (error + cell)" where
  "reconcile e tk df t =
     (if ''Date'' \<in> set (bar_columns df) then (t, Inl ValueError)
      else upsert_to_db e (stamp_ticker tk df) t)"

subsection \<open>Storage lookup and the sync planner\<close>

text \<open>
  \<^verbatim>\<open>MAX(date)\<close> over a \<^verbatim>\<open>TEXT\<close> column compares the texts byte by byte, which is
  the lexicographic order on \<open>string\<close>; it skips \<^verbatim>\<open>NULL\<close> and is \<^verbatim>\<open>NULL\<close> (here
  \<open>None\<close>) when nothing is left. The column \<^verbatim>\<open>date\<close> only ever receives texts from
  the sync loop (lemma \<open>params_date_stamped\<close> below).
\<close>

fun sql_max :: "string list \<Rightarrow> string option" where
  "sql_max [] = None"
| "sql_max (x # xs) = (case sql_max xs of None \<Rightarrow> Some x | Some m \<Rightarrow> Some (max x m))"

definition text_values :: "cell list \<Rightarrow> string list" where
  "text_values cs = concat (map (\<lambda>c. case c of Str s \<Rightarrow> [s] | _ \<Rightarrow> []) cs)"

text \<open>
  \<^verbatim>\<open>get_latest_date(ticker)\<close>: the comparison \<^verbatim>\<open>ticker = :ticker\<close> is never true
  for \<^verbatim>\<open>NULL\<close>; an empty text is falsy in \<^verbatim>\<open>result[0] if result and result[0]\<close>.
\<close>

definition get_latest_date :: "stock_row list \<Rightarrow> cell \<Rightarrow> string option" where
  "get_latest_date t tk =
     (case sql_max (text_values (map date (filter (\<lambda>r. ticker r = tk \<and> tk \<noteq> PyNone) t))) of
        None \<Rightarrow> None
      | Some s \<Rightarrow> if s = [] then None else Some s)"

datatype decision = SKIP_ABANDONED | SKIP_CURRENT | FETCH int int

text \<open>
  The head of the loop body (\<^verbatim>\<open>if latest: ... else: start_date = start_full\<close>), as
  a function of the latest stored date text and the clock. \<open>FETCH start end\<close> is the
  range printed by \<^verbatim>\<open>Fetching data from {start_date} to {today}\<close>.
\<close>

definition plan :: "env \<Rightarrow> int \<Rightarrow> string option \<Rightarrow> error + decision" where
  "plan e today latest =
     (case latest of
        None \<Rightarrow> Inr (FETCH (start_full today) today)
      | Some l \<Rightarrow>
          (case to_datetime e l of
             None \<Rightarrow> Inl ParseError
           | Some last_date \<Rightarrow>
               (let days_since_update = today - last_date in
                if days_since_update > abandon_days then Inr SKIP_ABANDONED
                else (let start_date = last_date + 1 in
                      if start_date > today then Inr SKIP_CURRENT
                      else Inr (FETCH start_date today)))))"

datatype msg =
    Abandoned_skipping
  | Already_up_to_date
  | Fetching int int
  | No_new_data
  | Added_updated nat

text \<open>
  One pass of \<^verbatim>\<open>for ticker in tickers\<close>: the new table, and either the exception
  that ends the script or what the pass printed. The provider is asked for
  \<^verbatim>\<open>end = today + 1 day\<close>.
\<close>

definition sync_ticker ::
  "env \<Rightarrow> int \<Rightarrow> cell \<Rightarrow> stock_row list \<Rightarrow> stock_row list \<times> (error + msg list)" where
  "sync_ticker e today tk t =
     (case plan e today (get_latest_date t tk) of
        Inl err \<Rightarrow> (t, Inl err)
      | Inr SKIP_ABANDONED \<Rightarrow> (t, Inr [Abandoned_skipping])
      | Inr SKIP_CURRENT \<Rightarrow> (t, Inr [Already_up_to_date])
      | Inr (FETCH start_date end_date) \<Rightarrow>
          (case yf_download e tk start_date (today + 1) of
             Inl err \<Rightarrow> (t, Inl err)
           | Inr df \<Rightarrow>
               if bars_empty df then (t, Inr [Fetching start_date end_date, No_new_data])
               else (case reconcile e tk df t of
                       (t', Inl err) \<Rightarrow> (t', Inl err)
                     | (t', Inr v) \<Rightarrow>
                         (t', Inr [Fetching start_date end_date,
                                    Added_updated (length (rows (stamp_ticker tk df)))]))))"

fun sync_loop ::
  "env \<Rightarrow> int \<Rightarrow> cell list \<Rightarrow> stock_row list \<Rightarrow> stock_row list \<times> (error + msg list)" where
  "sync_loop e today [] t = (t, Inr [])"
| "sync_loop e today (tk # tks) t =
     (case sync_ticker e today tk t of
        (t', Inl err) \<Rightarrow> (t', Inl err)
      | (t', Inr out) \<Rightarrow>
          (case sync_loop e today tks t' of
             (t'', Inl err) \<Rightarrow> (t'', Inl err)
           | (t'', Inr out') \<Rightarrow> (t'', Inr (out @ out'))))"

subsection \<open>Loading the tickers\<close>

text \<open>
  Strings are byte strings here: \<^verbatim>\<open>strip\<close> removes the ASCII white space of
  \<^verbatim>\<open>str.isspace\<close> at both ends, \<^verbatim>\<open>upper\<close> maps the ASCII letters.
\<close>

definition is_space :: "char \<Rightarrow> bool" where
  "is_space c = (let n = (of_char c :: nat) in (9 \<le> n \<and> n \<le> 13) \<or> (28 \<le> n \<and> n \<le> 32))"

definition strip :: "string \<Rightarrow> string" where
  "strip s = rev (dropWhile is_space (rev (dropWhile is_space s)))"

definition upper_char :: "char \<Rightarrow> char" where
  "upper_char c =
     (let n = (of_char c :: nat) in if 97 \<le> n \<and> n \<le> 122 then char_of (n - 32) else c)"

definition upper :: "string \<Rightarrow> string" where
  "upper s = map upper_char s"

text \<open>The \<^verbatim>\<open>.str\<close> accessor gives \<^verbatim>\<open>NaN\<close> for an element that is not a string.\<close>

fun str_strip :: "cell \<Rightarrow> cell" where
  "str_strip (Str s) = Str (strip s)"
| "str_strip c = NaN"

fun str_upper :: "cell \<Rightarrow> cell" where
  "str_upper (Str s) = Str (upper s)"
| "str_upper c = NaN"

definition dropna :: "cell list \<Rightarrow> cell list" where
  "dropna cs = filter (\<lambda>c. \<not> pd_isna c) cs"

text \<open>\<^verbatim>\<open>unique()\<close> keeps the first occurrence of each value, in order.\<close>

definition unique :: "cell list \<Rightarrow> cell list" where
  "unique cs = rev (remdups (rev cs))"

definition series :: "dataframe \<Rightarrow> string \<Rightarrow> cell list" where
  "series df col = map (\<lambda>r. r col) (rows df)"

definition clean_tickers :: "env \<Rightarrow> cell list \<Rightarrow> cell list" where
  "clean_tickers e cs =
     unique (dropna (map str_upper (map str_strip (map (astype_str e) cs))))"

text \<open>
  \<^verbatim>\<open>try: df_tickers['Ticker']... except: df_tickers['symbol']...\<close>; with neither
  column the second lookup raises \<^verbatim>\<open>KeyError\<close>.
\<close>

definition load_tickers :: "env \<Rightarrow> dataframe \<Rightarrow> error + cell list" where
  "load_tickers e df_tickers =
     (if ''Ticker'' \<in> set (columns df_tickers)
      then Inr (clean_tickers e (series df_tickers ''Ticker''))
      else if ''symbol'' \<in> set (columns df_tickers)
      then Inr (clean_tickers e (series df_tickers ''symbol''))
      else Inl KeyError)"

subsection \<open>The script \<^verbatim>\<open>download_data.py\<close>\<close>

text \<open>\<^verbatim>\<open>CREATE TABLE IF NOT EXISTS stock_data\<close>: the rows of the table afterwards.\<close>

definition create_table :: "database \<Rightarrow> stock_row list" where
  "create_table db = (case stock_data db of None \<Rightarrow> [] | Some t \<Rightarrow> t)"

definition download_data ::
  "env \<Rightarrow> int \<Rightarrow> dataframe \<Rightarrow> database \<Rightarrow> database \<times> (error + msg list)" where
  "download_data e today df_tickers db =
     (case load_tickers e df_tickers of
        Inl err \<Rightarrow> (db, Inl err)
      | Inr tks \<Rightarrow>
          (case sync_loop e today tks (create_table db) of
             (t', res) \<Rightarrow> (db\<lparr>stock_data := Some t'\<rparr>, res)))"

subsection \<open>The script \<^verbatim>\<open>remove_abondoned_data.py\<close>\<close>

text \<open>
  \<^verbatim>\<open>SELECT ticker, MAX(date) AS last_date FROM stock_data GROUP BY ticker\<close>: one
  row for each ticker value of the table. SQLite walks the primary-key index, so the
  groups come out in the order of the tickers: \<^verbatim>\<open>NULL\<close> first, then the texts byte
  by byte. (The scripts write no other kind of value into the column; such a value is
  placed with \<^verbatim>\<open>NULL\<close> here.)
\<close>

definition last_dates :: "stock_row list \<Rightarrow> (cell \<times> string option) list" where
  "last_dates t =
     map (\<lambda>tk. (tk, sql_max (text_values (map date (filter (\<lambda>r. ticker r = tk) t)))))
         (sort_key (\<lambda>tk. text_values [tk]) (remdups (map ticker t)))"

text \<open>
  Line 15, \<^verbatim>\<open>pd.to_datetime(df['last_date']).dt.date\<close>: every text is parsed, a text
  pandas cannot parse raises, a \<^verbatim>\<open>NULL\<close> becomes \<^verbatim>\<open>NaT\<close> (here \<open>None\<close>).
\<close>

fun parse_last_dates ::
  "env \<Rightarrow> (cell \<times> string option) list \<Rightarrow> error + (cell \<times> int option) list" where
  "parse_last_dates e [] = Inr []"
| "parse_last_dates e ((tk, None) # xs) =
     (case parse_last_dates e xs of
        Inl err \<Rightarrow> Inl err
      | Inr ys \<Rightarrow> Inr ((tk, None) # ys))"
| "parse_last_dates e ((tk, Some s) # xs) =
     (case to_datetime e s of
        None \<Rightarrow> Inl ParseError
      | Some last_date \<Rightarrow>
          (case parse_last_dates e xs of
             Inl err \<Rightarrow> Inl err
           | Inr ys \<Rightarrow> Inr ((tk, Some last_date) # ys)))"

text \<open>
  Line 16, \<^verbatim>\<open>(today - x).days\<close> for each row in turn: subtracting \<^verbatim>\<open>NaT\<close> from a
  date raises \<^verbatim>\<open>TypeError\<close>.
\<close>

fun days_since_update :: "int \<Rightarrow> (cell \<times> int option) list \<Rightarrow> error + (cell \<times> int) list" where
  "days_since_update today [] = Inr []"
| "days_since_update today ((tk, None) # xs) = Inl TypeError"
| "days_since_update today ((tk, Some last_date) # xs) =
     (case days_since_update today xs of
        Inl err \<Rightarrow> Inl err
      | Inr ys \<Rightarrow> Inr ((tk, today - last_date) # ys))"

text \<open>Lines 15 to 18: the tickers of the rows above \<open>cutoff_days\<close>.\<close>

definition select_abandoned :: "env \<Rightarrow> int \<Rightarrow> (cell \<times> string option) list \<Rightarrow> error + cell list" where
  "select_abandoned e today xs =
     (case parse_last_dates e xs of
        Inl err \<Rightarrow> Inl err
      | Inr ds \<Rightarrow>
          (case days_since_update today ds of
             Inl err \<Rightarrow> Inl err
           | Inr ys \<Rightarrow> Inr (map fst (filter (\<lambda>(tk, n). n > cutoff_days) ys))))"

text \<open>
  The loop \<^verbatim>\<open>for ticker in abandoned['ticker']: conn.execute(text(...), ...)\<close>. The
  script imports only \<^verbatim>\<open>create_engine\<close> from sqlalchemy, so the name \<^verbatim>\<open>text\<close> is
  not defined and the first pass of the loop raises \<^verbatim>\<open>NameError\<close> before any
  statement reaches the database.
\<close>

fun delete_loop :: "cell list \<Rightarrow> string list \<Rightarrow> error + string list" where
  "delete_loop [] tt = Inr tt"
| "delete_loop (tk # tks) tt = Inl NameError"

datatype tickers_step = Deleted_from_tickers "cell list" | No_tickers_table_skipping

text \<open>
  The whole script: the database afterwards, and either the exception that ended it or
  the abandoned tickers it printed together with what the last step reported.
\<close>

definition remove_abondoned_data ::
  "env \<Rightarrow> int \<Rightarrow> database \<Rightarrow> database \<times> (error + cell list \<times> tickers_step)" where
  "remove_abondoned_data e today db =
     (case stock_data db of
        None \<Rightarrow> (db, Inl OperationalError)
      | Some t \<Rightarrow>
          (case select_abandoned e today (last_dates t) of
             Inl err \<Rightarrow> (db, Inl err)
           | Inr abandoned \<Rightarrow>
               (case tickers db of
                  Some tt \<Rightarrow>
                    (case engine_begin (delete_loop abandoned) tt of
                       (tt', Inl err) \<Rightarrow> (db\<lparr>tickers := Some tt'\<rparr>, Inl err)
                     | (tt', Inr v) \<Rightarrow>
                         (db\<lparr>tickers := Some tt'\<rparr>,
                          Inr (abandoned, Deleted_from_tickers abandoned)))
                | None \<Rightarrow> (db, Inr (abandoned, No_tickers_table_skipping)))))"

section \<open>Auxiliary notions and sample data\<close>

text \<open>
  What \<open>normalize\<close> does to one row, in closed form: the renamed row, \<^verbatim>\<open>pd.NA\<close> in
  the expected columns the frame lacks, the date as a string, \<^verbatim>\<open>None\<close> for nulls.
\<close>

definition norm_row :: "env \<Rightarrow> string list \<Rightarrow> (string \<Rightarrow> cell) \<Rightarrow> string \<Rightarrow> cell" where
  "norm_row e cols r =
     (let r1 = (\<lambda>c. case find (\<lambda>old. rename_label old = c) cols of
                        Some old \<Rightarrow> r old
                      | None \<Rightarrow> r c);
          r2 = (\<lambda>c. if c \<in> set expected_cols \<and> c \<notin> set (map rename_label cols) then NA
                     else r1 c);
          r3 = r2(''date'' := astype_str e (r2 ''date''))
      in (\<lambda>c. if pd_notnull (r3 c) then r3 c else PyNone))"

text \<open>A row whose key columns are both not \<^verbatim>\<open>NULL\<close>.\<close>

definition keyed :: "stock_row \<Rightarrow> bool" where
  "keyed p = (ticker p \<noteq> PyNone \<and> date p \<noteq> PyNone)"

text \<open>The primary key holds in a table, and in a database whose table exists.\<close>

definition pk_unique :: "stock_row list \<Rightarrow> bool" where
  "pk_unique t = distinct (map key t)"

definition pk_unique_db :: "database \<Rightarrow> bool" where
  "pk_unique_db db = (case stock_data db of None \<Rightarrow> True | Some t \<Rightarrow> pk_unique t)"

text \<open>The six price and volume fields of a stored row, under their column names.\<close>

definition value_fields :: "stock_row \<Rightarrow> (string \<times> cell) list" where
  "value_fields p =
     [(''open'', openp p), (''high'', high p), (''low'', low p), (''close'', closep p),
      (''adj_close'', adj_close p), (''volume'', volume p)]"

definition value_cols :: "string list" where
  "value_cols = [''open'', ''high'', ''low'', ''close'', ''adj_close'', ''volume'']"

text \<open>
  Sample data: day 19358 is 2023-01-01, day 19538 is 2023-06-30. The sample provider
  frame has no \<^verbatim>\<open>Adj Close\<close> column and no volume figures.
\<close>

definition sample_parse :: "string \<Rightarrow> int option" where
  "sample_parse s =
     map_of [(''2023-01-01'', 19358), (''2023-03-01'', 19417), (''2023-06-30'', 19538)] s"

definition sample_repr :: "cell \<Rightarrow> string" where
  "sample_repr c =
     (case c of
        Stamp d \<Rightarrow> (if d = 19358 then ''2023-01-01'' else ''2023-06-30'')
      | _ \<Rightarrow> ''1.0'')"

definition sample_bar :: "string \<Rightarrow> cell" where
  "sample_bar c = (if c = ''Volume'' then NaN else Num 1)"

definition sample_bars :: bars where
  "sample_bars =
     \<lparr>bar_columns = [''Open'', ''High'', ''Low'', ''Close'', ''Volume''],
      bar_rows = [(19358, sample_bar), (19538, sample_bar)]\<rparr>"

definition sample_env :: env where
  "sample_env =
     \<lparr>to_datetime = sample_parse, str_repr = sample_repr, astype_keeps_missing = False,
      yf_download = (\<lambda>tk start_date end_date. Inr sample_bars),
      db_fails = (\<lambda>t p. False)\<rparr>"

text \<open>The same surroundings with the \<^verbatim>\<open>astype(str)\<close> of pandas 3.\<close>

definition pandas3_env :: env where
  "pandas3_env = sample_env\<lparr>astype_keeps_missing := True\<rparr>"

text \<open>A database that refuses the statement for 2023-06-30.\<close>

definition failing_env :: env where
  "failing_env = sample_env\<lparr>db_fails := (\<lambda>t p. date p = Str ''2023-06-30'')\<rparr>"

definition stored :: "string \<Rightarrow> string \<Rightarrow> stock_row" where
  "stored tk d =
     \<lparr>ticker = Str tk, date = Str d, openp = Num 1, high = Num 1, low = Num 1,
      closep = Num 1, adj_close = PyNone, volume = PyNone\<rparr>"

text \<open>Two symbols, one last updated on 2023-01-01, with a tracking table.\<close>

definition sample_db :: database where
  "sample_db =
     \<lparr>stock_data = Some [stored ''OLD'' ''2023-01-01'', stored ''NEW'' ''2023-06-30''],
      tickers = Some [''OLD'', ''NEW'']\<rparr>"

text \<open>A ticker file with one missing cell.\<close>

definition sample_tickers :: dataframe where
  "sample_tickers =
     \<lparr>columns = [''Ticker''],
      rows = [(\<lambda>c. Str '' aapl''), (\<lambda>c. NaN), (\<lambda>c. Str ''AAPL'')]\<rparr>"

section \<open>Properties\<close>

subsection \<open>Normalisation in closed form\<close>

lemma rows_add_missing:
  "rows (add_missing cols df) =
     map (\<lambda>r c. if c \<in> set cols \<and> c \<notin> set (columns df) then NA else r c) (rows df)"
proof (induction cols arbitrary: df)
  case Nil
  show ?case by simp
next
  case (Cons col cols)
  show ?case
  proof (cases "col \<in> set (columns df)")
    case True
    then have "rows (add_missing (col # cols) df) = rows (add_missing cols df)"
      by simp
    also have "\<dots> = map (\<lambda>r c. if c \<in> set cols \<and> c \<notin> set (columns df) then NA else r c) (rows df)"
      by (rule Cons.IH)
    also have "\<dots> = map (\<lambda>r c. if c \<in> set (col # cols) \<and> c \<notin> set (columns df) then NA else r c) (rows df)"
      using True by (intro map_cong refl ext) auto
    finally show ?thesis .
  next
    case False
    then have "rows (add_missing (col # cols) df) = rows (add_missing cols (set_column col NA df))"
      by simp
    also have "\<dots> = map (\<lambda>r c. if c \<in> set cols \<and> c \<notin> set (columns (set_column col NA df)) then NA else r c)
                        (rows (set_column col NA df))"
      by (rule Cons.IH)
    also have "\<dots> = map (\<lambda>r c. if c \<in> set (col # cols) \<and> c \<notin> set (columns df) then NA else r c) (rows df)"
      using False by (auto simp: set_column_def intro!: ext)
    finally show ?thesis .
  qed
qed

lemma rows_normalize:
  "rows (normalize e df) = map (norm_row e (columns df)) (rows df)"
  by (simp add: normalize_def where_notnull_def date_astype_str_def select_columns_def
      rows_add_missing rename_columns_def norm_row_def Let_def comp_def)

lemma count_list_distinct: "distinct xs \<Longrightarrow> count_list xs x \<le> 1"
  by (induction xs) auto

lemma distinct_no_clash: "distinct (map rename_label (columns df)) \<Longrightarrow> \<not> label_clash df"
proof -
  assume "distinct (map rename_label (columns df))"
  then have "\<not> 1 < count_list (map rename_label (columns df)) c" for c
    using count_list_distinct [of "map rename_label (columns df)" c] by simp
  then show ?thesis
    by (simp add: label_clash_def list_ex_iff)
qed

lemma length_params_list:
  "\<not> label_clash df \<Longrightarrow> length (params_list e df) = length (rows df)"
  by (simp add: params_list_def rows_normalize)

lemma params_list_nth:
  "\<not> label_clash df \<Longrightarrow> i < length (rows df) \<Longrightarrow>
   params_list e df ! i = params_of (norm_row e (columns df) (rows df ! i))"
  by (simp add: params_list_def rows_normalize)

lemma set_params_list:
  "p \<in> set (params_list e df) \<Longrightarrow>
   \<exists>r\<in>set (rows df). p = params_of (norm_row e (columns df) r)"
  by (auto simp: params_list_def rows_normalize split: if_splits)

lemma rename_label_ticker: "rename_label old = ''ticker'' \<Longrightarrow> old = ''ticker''"
  by (simp add: rename_label_def split: if_splits)

lemma find_rename_ticker:
  "''ticker'' \<in> set cols \<Longrightarrow> find (\<lambda>old. rename_label old = ''ticker'') cols = Some ''ticker''"
proof (induction cols)
  case Nil
  then show ?case by simp
next
  case (Cons c cols)
  show ?case
  proof (cases "c = ''ticker''")
    case True
    then show ?thesis by (simp add: rename_label_def)
  next
    case False
    then have "rename_label c \<noteq> ''ticker''"
      using rename_label_ticker by blast
    then show ?thesis
      using Cons False by simp
  qed
qed

lemma find_None_rename:
  "find (\<lambda>old. rename_label old = c) cols = None \<longleftrightarrow> c \<notin> set (map rename_label cols)"
  by (auto simp: find_None_iff)

lemma rename_label_Date: "rename_label ''Date'' = ''date''"
  by (simp add: rename_label_def)

lemma norm_row_date_stamped:
  assumes "r ''Date'' = Stamp d"
  shows "norm_row e (''Date'' # cols) r ''date'' = Str (str_repr e (Stamp d))"
proof -
  have f: "find (\<lambda>old. rename_label old = ''date'') (''Date'' # cols) = Some ''Date''"
    by (simp add: rename_label_Date)
  have m: "''date'' \<in> set (map rename_label (''Date'' # cols))"
    by (simp add: rename_label_Date)
  have a: "astype_str e (Stamp d) = Str (str_repr e (Stamp d))"
    by (simp add: astype_str_def)
  have "norm_row e (''Date'' # cols) r ''date'' =
          (if pd_notnull (astype_str e (r ''Date'')) then astype_str e (r ''Date'') else PyNone)"
    unfolding norm_row_def Let_def using f m by simp
  then show ?thesis
    using assms a by (simp add: pd_notnull_def)
qed

lemma norm_row_ticker:
  assumes "''ticker'' \<in> set cols" and "\<not> pd_isna (r ''ticker'')"
  shows "norm_row e cols r ''ticker'' = r ''ticker''"
proof -
  have "''ticker'' \<in> set (map rename_label cols)"
    using assms(1) by (force simp: rename_label_def)
  then show ?thesis
    using assms by (simp add: norm_row_def Let_def pd_notnull_def find_rename_ticker)
qed

lemma norm_row_value:
  assumes "c \<in> set value_cols"
  shows "param (norm_row e cols r) c =
           (case find (\<lambda>old. rename_label old = c) cols of
              None \<Rightarrow> PyNone
            | Some old \<Rightarrow> if pd_isna (r old) then PyNone else r old)"
proof -
  have c: "c \<noteq> ''date''" "c \<in> set expected_cols"
    using assms by (auto simp: value_cols_def expected_cols_def)
  show ?thesis
  proof (cases "find (\<lambda>old. rename_label old = c) cols")
    case None
    then have "c \<notin> set (map rename_label cols)"
      by (simp add: find_None_rename)
    then show ?thesis
      using None c by (simp add: norm_row_def param_def Let_def pd_notnull_def)
  next
    case (Some old)
    then have "c \<in> set (map rename_label cols)"
      using find_None_rename [of c cols] by simp
    then show ?thesis
      using Some c by (simp add: norm_row_def param_def Let_def pd_notnull_def)
  qed
qed

lemma columns_stamp_ticker:
  "\<exists>cols. columns (stamp_ticker tk b) = ''Date'' # cols \<and> ''ticker'' \<in> set cols"
  by (simp add: stamp_ticker_def reset_index_def set_column_def)

lemma rows_stamp_ticker:
  "r \<in> set (rows (stamp_ticker tk b)) \<Longrightarrow> \<exists>d. r ''Date'' = Stamp d \<and> r ''ticker'' = tk"
  by (auto simp: stamp_ticker_def reset_index_def set_column_def)

lemma params_ticker_stamped:
  assumes "p \<in> set (params_list e (stamp_ticker tk b))" and "\<not> pd_isna tk"
  shows "ticker p = tk"
proof -
  obtain r where r: "r \<in> set (rows (stamp_ticker tk b))"
    and p: "p = params_of (norm_row e (columns (stamp_ticker tk b)) r)"
    using assms(1) set_params_list by blast
  have tk: "r ''ticker'' = tk"
    using r rows_stamp_ticker by blast
  obtain cols where "columns (stamp_ticker tk b) = ''Date'' # cols" and "''ticker'' \<in> set cols"
    using columns_stamp_ticker by blast
  then have "norm_row e (columns (stamp_ticker tk b)) r ''ticker'' = tk"
    using assms(2) tk norm_row_ticker [of "columns (stamp_ticker tk b)" r e] by simp
  then show ?thesis
    using assms(2) by (simp add: p params_of_def param_def)
qed

lemma params_date_stamped:
  assumes "p \<in> set (params_list e (stamp_ticker tk b))"
  shows "\<exists>d. date p = Str (str_repr e (Stamp d))"
proof -
  obtain r where r: "r \<in> set (rows (stamp_ticker tk b))"
    and p: "p = params_of (norm_row e (columns (stamp_ticker tk b)) r)"
    using assms set_params_list by blast
  obtain d where d: "r ''Date'' = Stamp d"
    using r rows_stamp_ticker by blast
  obtain cols where "columns (stamp_ticker tk b) = ''Date'' # cols"
    using columns_stamp_ticker by blast
  then have "norm_row e (columns (stamp_ticker tk b)) r ''date'' = Str (str_repr e (Stamp d))"
    using d by (simp add: norm_row_date_stamped)
  then show ?thesis
    by (auto simp: p params_of_def param_def)
qed

lemma params_keyed_stamped:
  assumes "p \<in> set (params_list e (stamp_ticker tk b))" and "\<not> pd_isna tk"
  shows "keyed p"
proof -
  have "ticker p = tk" using assms by (rule params_ticker_stamped)
  moreover obtain d where "date p = Str (str_repr e (Stamp d))"
    using assms(1) params_date_stamped by blast
  ultimately show ?thesis using assms(2) by (auto simp: keyed_def)
qed

lemma insert_or_replace_keyed:
  "keyed p \<Longrightarrow> insert_or_replace p t = filter (\<lambda>x. key x \<noteq> key p) t @ [p]"
  by (simp add: insert_or_replace_def keyed_def)

lemma fold_upsert_split:
  "\<forall>p\<in>set ps. keyed p \<Longrightarrow>
   fold insert_or_replace ps t =
     filter (\<lambda>x. key x \<notin> key ` set ps) t @ fold insert_or_replace ps []"
proof (induction ps arbitrary: t)
  case Nil
  show ?case by simp
next
  case (Cons p ps)
  then have k: "keyed p" and ks: "\<forall>p\<in>set ps. keyed p"
    by simp_all
  have "fold insert_or_replace (p # ps) t = fold insert_or_replace ps (filter (\<lambda>x. key x \<noteq> key p) t @ [p])"
    using k by (simp add: insert_or_replace_keyed)
  also have "\<dots> = filter (\<lambda>x. key x \<notin> key ` set ps) (filter (\<lambda>x. key x \<noteq> key p) t @ [p])
                     @ fold insert_or_replace ps []"
    using ks by (rule Cons.IH)
  also have "\<dots> = filter (\<lambda>x. key x \<notin> key ` set (p # ps)) t
                     @ (filter (\<lambda>x. key x \<notin> key ` set ps) [p] @ fold insert_or_replace ps [])"
    by (simp add: conj_commute)
  also have "filter (\<lambda>x. key x \<notin> key ` set ps) [p] @ fold insert_or_replace ps []
               = fold insert_or_replace ps [p]"
    using Cons.IH [OF ks, of "[p]"] by simp
  also have "fold insert_or_replace ps [p] = fold insert_or_replace (p # ps) []"
    using k by (simp add: insert_or_replace_keyed)
  finally show ?case .
qed

lemma set_fold_upsert: "set (fold insert_or_replace ps t) \<subseteq> set t \<union> set ps"
proof (induction ps arbitrary: t)
  case Nil
  show ?case by simp
next
  case (Cons p ps)
  have "set (insert_or_replace p t) \<subseteq> set t \<union> {p}"
    by (auto simp: insert_or_replace_def)
  with Cons.IH [of "insert_or_replace p t"] show ?case
    by auto
qed

lemma fold_upsert_idem:
  assumes "\<forall>p\<in>set ps. keyed p"
  shows "fold insert_or_replace ps (fold insert_or_replace ps t) = fold insert_or_replace ps t"
proof -
  let ?K = "\<lambda>x. key x \<notin> key ` set ps"
  let ?u = "fold insert_or_replace ps []"
  have "set ?u \<subseteq> set ps"
    using set_fold_upsert [of ps "[]"] by simp
  then have none: "filter ?K ?u = []"
    by (auto simp: filter_empty_conv)
  have a: "fold insert_or_replace ps t = filter ?K t @ ?u"
    using assms by (rule fold_upsert_split)
  have "fold insert_or_replace ps (fold insert_or_replace ps t) =
          filter ?K (fold insert_or_replace ps t) @ ?u"
    using assms by (rule fold_upsert_split)
  also have "\<dots> = filter ?K (filter ?K t @ ?u) @ ?u"
    using a by simp
  also have "\<dots> = filter ?K t @ ?u"
    using none by simp
  also have "\<dots> = fold insert_or_replace ps t"
    using a by simp
  finally show ?thesis .
qed

lemma execute_rows_Inr:
  "execute_rows fails ps t = Inr t' \<Longrightarrow> t' = fold insert_or_replace ps t"
  by (induction ps arbitrary: t) (auto split: if_splits)

lemma execute_rows_Inl:
  "execute_rows fails ps1 t = Inr t1 \<Longrightarrow> fails t1 p \<Longrightarrow>
   execute_rows fails (ps1 @ p # ps2) t = Inl OperationalError"
  by (induction ps1 arbitrary: t) (auto split: if_splits)

lemma execute_rows_never_fails:
  "\<forall>t p. \<not> fails t p \<Longrightarrow> \<exists>t'. execute_rows fails ps t = Inr t'"
  by (induction ps arbitrary: t) auto

lemma upsert_to_db_cases:
  "upsert_to_db e df t = (t, Inr PyNone) \<and> df_empty df \<or>
   (\<exists>err. upsert_to_db e df t = (t, Inl err)) \<and> \<not> df_empty df \<or>
   upsert_to_db e df t = (fold insert_or_replace (params_list e df) t, Inr PyNone) \<and>
     \<not> df_empty df \<and> \<not> label_clash df"
proof (cases "df_empty df")
  case True
  then show ?thesis by (simp add: upsert_to_db_def)
next
  case False
  show ?thesis
  proof (cases "label_clash df")
    case True
    then show ?thesis
      using False by (simp add: upsert_to_db_def engine_begin_def)
  next
    case clash: False
    show ?thesis
    proof (cases "execute_rows (db_fails e) (params_list e df) t")
      case (Inl err)
      then show ?thesis
        using False clash by (simp add: upsert_to_db_def engine_begin_def)
    next
      case (Inr t')
      then have "t' = fold insert_or_replace (params_list e df) t"
        by (rule execute_rows_Inr)
      then show ?thesis
        using False clash Inr by (simp add: upsert_to_db_def engine_begin_def)
    qed
  qed
qed

lemma set_upsert_to_db: "set (fst (upsert_to_db e df t)) \<subseteq> set t \<union> set (params_list e df)"
  using upsert_to_db_cases [of e df t] set_fold_upsert [of "params_list e df" t] by auto

subsection \<open>The sample data evaluated\<close>

lemma sample_env_fails: "db_fails sample_env t p = False"
  by (simp add: sample_env_def)

lemma failing_env_fails: "db_fails failing_env t p = (date p = Str ''2023-06-30'')"
  by (simp add: failing_env_def)

lemma sample_rows_stamped:
  "rows (stamp_ticker (Str ''AAA'') sample_bars) =
     [(sample_bar(''Date'' := Stamp 19358))(''ticker'' := Str ''AAA''),
      (sample_bar(''Date'' := Stamp 19538))(''ticker'' := Str ''AAA'')]"
  "columns (stamp_ticker (Str ''AAA'') sample_bars) =
     [''Date'', ''Open'', ''High'', ''Low'', ''Close'', ''Volume'', ''ticker'']"
  by (simp_all add: stamp_ticker_def set_column_def reset_index_def sample_bars_def)

lemma sample_not_empty: "\<not> df_empty (stamp_ticker (Str ''AAA'') sample_bars)"
  by (simp add: df_empty_def sample_rows_stamped)

lemma sample_distinct:
  "distinct (map rename_label (columns (stamp_ticker (Str ''AAA'') sample_bars)))"
  by (simp add: sample_rows_stamped rename_label_def)

lemma sample_no_clash: "\<not> label_clash (stamp_ticker (Str ''AAA'') sample_bars)"
  using sample_distinct by (rule distinct_no_clash)

lemma sample_no_date_column: "''Date'' \<notin> set (bar_columns sample_bars)"
  by (simp add: sample_bars_def)

lemma sample_params_repr:
  assumes "str_repr e = sample_repr"
  shows "params_list e (stamp_ticker (Str ''AAA'') sample_bars) =
     [stored ''AAA'' ''2023-01-01'', stored ''AAA'' ''2023-06-30'']"
proof -
  have "astype_str e (Stamp d) = Str (sample_repr (Stamp d))" for d
    using assms by (simp add: astype_str_def)
  then show ?thesis
    by (simp add: params_list_def sample_no_clash rows_normalize sample_rows_stamped
        norm_row_def Let_def sample_repr_def sample_bar_def stored_def params_of_def
        param_def rename_label_def expected_cols_def pd_notnull_def)
qed

lemma sample_params:
  "params_list sample_env (stamp_ticker (Str ''AAA'') sample_bars) =
     [stored ''AAA'' ''2023-01-01'', stored ''AAA'' ''2023-06-30'']"
  by (rule sample_params_repr) (simp add: sample_env_def)

lemma sample_params_failing:
  "params_list failing_env (stamp_ticker (Str ''AAA'') sample_bars) =
     [stored ''AAA'' ''2023-01-01'', stored ''AAA'' ''2023-06-30'']"
  by (rule sample_params_repr) (simp add: failing_env_def sample_env_def)

lemma sample_reconcile:
  "reconcile sample_env (Str ''AAA'') sample_bars [] =
     ([stored ''AAA'' ''2023-01-01'', stored ''AAA'' ''2023-06-30''], Inr PyNone)"
  by (simp add: reconcile_def sample_no_date_column upsert_to_db_def sample_not_empty
      sample_no_clash sample_params engine_begin_def insert_or_replace_def stored_def key_def
      sample_env_fails)

lemma sample_last_dates:
  "last_dates [stored ''OLD'' ''2023-01-01'', stored ''NEW'' ''2023-06-30''] =
     [(Str ''NEW'', Some ''2023-06-30''), (Str ''OLD'', Some ''2023-01-01'')]"
  by (simp add: last_dates_def stored_def text_values_def)

subsection \<open>The sync planner\<close>

lemma get_latest_date_no_rows:
  "\<forall>r\<in>set t. ticker r \<noteq> tk \<Longrightarrow> get_latest_date t tk = None"
proof -
  assume "\<forall>r\<in>set t. ticker r \<noteq> tk"
  then have "filter (\<lambda>r. ticker r = tk \<and> tk \<noteq> PyNone) t = []"
    by (simp add: filter_empty_conv)
  then show ?thesis
    by (simp add: get_latest_date_def text_values_def)
qed

text \<open>
  Claim C3. A symbol with no stored rows is fetched from \<open>today - years * 365\<close> days to
  today. A symbol whose latest stored date parses to \<open>D\<close>, with \<open>D \<le> today\<close> and not
  more than \<open>abandon_days\<close> behind, is planned from \<open>D + 1\<close>: the decision is
  \<open>SKIP_CURRENT\<close> when \<open>D + 1\<close> is after today and \<open>FETCH (D + 1) today\<close> otherwise.
\<close>

theorem plan_fetch_range:
  "((\<forall>r\<in>set t. ticker r \<noteq> tk) \<longrightarrow>
      plan e today (get_latest_date t tk) = Inr (FETCH (today - years * 365) today)) \<and>
   (get_latest_date t tk = Some l \<and> to_datetime e l = Some D \<and> D \<le> today \<and>
      \<not> today - D > abandon_days \<longrightarrow>
      plan e today (get_latest_date t tk) =
        Inr (if D + 1 > today then SKIP_CURRENT else FETCH (D + 1) today))"
  by (auto simp: get_latest_date_no_rows plan_def start_full_def Let_def)

theorem plan_fetch_range_witness:
  "plan sample_env 19538 (get_latest_date [stored ''BBB'' ''2023-01-01''] (Str ''AAA''))
     = Inr (FETCH 12238 19538) \<and>
   plan sample_env 19538 (get_latest_date [stored ''BBB'' ''2023-03-01''] (Str ''BBB''))
     = Inr (FETCH 19418 19538) \<and>
   plan sample_env 19538 (get_latest_date [stored ''BBB'' ''2023-06-30''] (Str ''BBB''))
     = Inr SKIP_CURRENT"
  using plan_fetch_range [where t = "[stored ''BBB'' ''2023-01-01'']" and tk = "Str ''AAA''"
       and e = sample_env and today = 19538]
    plan_fetch_range [where t = "[stored ''BBB'' ''2023-03-01'']" and tk = "Str ''BBB''"
       and l = "''2023-03-01''" and e = sample_env and D = 19417 and today = 19538]
    plan_fetch_range [where t = "[stored ''BBB'' ''2023-06-30'']" and tk = "Str ''BBB''"
       and l = "''2023-06-30''" and e = sample_env and D = 19538 and today = 19538]
  by (simp add: stored_def get_latest_date_def text_values_def sample_env_def sample_parse_def
      years_def abandon_days_def)

text \<open>
  Claim C4. The abandonment test is strict: at exactly \<open>abandon_days\<close> days since the
  latest stored date the decision is \<open>FETCH\<close>; at \<open>abandon_days + 1\<close> days or more it is
  \<open>SKIP_ABANDONED\<close>, and the pass leaves the table as it was whatever the provider
  would have answered.
\<close>

theorem abandon_boundary:
  "get_latest_date t tk = Some l \<and> to_datetime e l = Some D \<longrightarrow>
     (today - D = abandon_days \<longrightarrow>
        plan e today (get_latest_date t tk) = Inr (FETCH (D + 1) today)) \<and>
     (today - D \<ge> abandon_days + 1 \<longrightarrow>
        plan e today (get_latest_date t tk) = Inr SKIP_ABANDONED \<and>
        sync_ticker e today tk t = (t, Inr [Abandoned_skipping]))"
  by (auto simp: plan_def sync_ticker_def Let_def abandon_days_def)

theorem abandon_boundary_witness:
  "plan sample_env 19538 (get_latest_date [stored ''BBB'' ''2023-01-01''] (Str ''BBB''))
     = Inr (FETCH 19359 19538) \<and>
   plan sample_env 19539 (get_latest_date [stored ''BBB'' ''2023-01-01''] (Str ''BBB''))
     = Inr SKIP_ABANDONED \<and>
   sync_ticker sample_env 19539 (Str ''BBB'') [stored ''BBB'' ''2023-01-01'']
     = ([stored ''BBB'' ''2023-01-01''], Inr [Abandoned_skipping])"
  using abandon_boundary [where t = "[stored ''BBB'' ''2023-01-01'']" and tk = "Str ''BBB''"
       and l = "''2023-01-01''" and e = sample_env and D = 19358 and today = 19538]
    abandon_boundary [where t = "[stored ''BBB'' ''2023-01-01'']" and tk = "Str ''BBB''"
       and l = "''2023-01-01''" and e = sample_env and D = 19358 and today = 19539]
  by (simp add: stored_def get_latest_date_def text_values_def sample_env_def sample_parse_def
      abandon_days_def)

subsection \<open>The reconciler\<close>

text \<open>
  Claim C1. Reconciling the same fetched bars for the same symbol a second time leaves
  the table exactly as the first run left it: the same rows with the same field values,
  in the same number. This holds whatever the database refuses, since a refused batch
  is rolled back both times.
\<close>

theorem reconcile_idempotent:
  "fst (reconcile e (Str symbol) df (fst (reconcile e (Str symbol) df t))) =
   fst (reconcile e (Str symbol) df t)"
proof (cases "''Date'' \<in> set (bar_columns df)")
  case True
  then show ?thesis by (simp add: reconcile_def)
next
  case False
  let ?df = "stamp_ticker (Str symbol) df"
  let ?ps = "params_list e ?df"
  have keyed: "\<forall>p\<in>set ?ps. keyed p"
    using params_keyed_stamped [of _ e "Str symbol" df] by simp
  have idem: "fold insert_or_replace ?ps (fold insert_or_replace ?ps t) = fold insert_or_replace ?ps t"
    using keyed by (rule fold_upsert_idem)
  consider
    (empty) "upsert_to_db e ?df t = (t, Inr PyNone)" "df_empty ?df"
  | (failed) err where "upsert_to_db e ?df t = (t, Inl err)"
  | (applied) "upsert_to_db e ?df t = (fold insert_or_replace ?ps t, Inr PyNone)" "\<not> df_empty ?df"
    using upsert_to_db_cases [of e ?df t] by blast
  then show ?thesis
  proof cases
    case empty
    then show ?thesis using False by (simp add: reconcile_def)
  next
    case failed
    then show ?thesis using False by (simp add: reconcile_def)
  next
    case applied
    let ?t1 = "fold insert_or_replace ?ps t"
    from upsert_to_db_cases [of e ?df ?t1] applied(2)
    have "fst (upsert_to_db e ?df ?t1) = ?t1 \<or> fst (upsert_to_db e ?df ?t1) = fold insert_or_replace ?ps ?t1"
      by auto
    then have "fst (upsert_to_db e ?df ?t1) = ?t1"
      using idem by auto
    then show ?thesis
      using applied(1) False by (simp add: reconcile_def)
  qed
qed

theorem reconcile_idempotent_witness:
  "fst (reconcile sample_env (Str ''AAA'') sample_bars
          [stored ''AAA'' ''2023-01-01'', stored ''AAA'' ''2023-06-30'']) =
   [stored ''AAA'' ''2023-01-01'', stored ''AAA'' ''2023-06-30'']"
  using reconcile_idempotent [of sample_env "''AAA''" sample_bars "[]"]
  by (simp add: sample_reconcile)

text \<open>
  Claim C7. The batch of one call is one transaction: the table afterwards is the old
  table when the call raised, and the old table with every row of the batch upserted
  when it returned; when the statements before some row succeed and that row is
  refused, the call raises and the table is the old one.
\<close>

theorem upsert_atomic:
  "(snd (upsert_to_db e df t) = Inl err \<longrightarrow> fst (upsert_to_db e df t) = t) \<and>
   (snd (upsert_to_db e df t) = Inr v \<and> \<not> df_empty df \<longrightarrow>
      fst (upsert_to_db e df t) = fold insert_or_replace (params_list e df) t) \<and>
   (\<not> df_empty df \<and> params_list e df = before @ p # after \<and>
      execute_rows (db_fails e) before t = Inr mid \<and> db_fails e mid p \<longrightarrow>
      upsert_to_db e df t = (t, Inl OperationalError))"
proof (intro conjI impI)
  assume "snd (upsert_to_db e df t) = Inl err"
  then show "fst (upsert_to_db e df t) = t"
    using upsert_to_db_cases [of e df t] by auto
next
  assume "snd (upsert_to_db e df t) = Inr v \<and> \<not> df_empty df"
  then show "fst (upsert_to_db e df t) = fold insert_or_replace (params_list e df) t"
    using upsert_to_db_cases [of e df t] by auto
next
  assume a: "\<not> df_empty df \<and> params_list e df = before @ p # after \<and>
      execute_rows (db_fails e) before t = Inr mid \<and> db_fails e mid p"
  then have "execute_rows (db_fails e) (params_list e df) t = Inl OperationalError"
    using execute_rows_Inl [of "db_fails e" before t mid p after] by simp
  moreover have "\<not> label_clash df"
    using a by (auto simp: params_list_def split: if_splits)
  ultimately show "upsert_to_db e df t = (t, Inl OperationalError)"
    using a by (simp add: upsert_to_db_def engine_begin_def)
qed

theorem upsert_atomic_witness:
  "upsert_to_db failing_env (stamp_ticker (Str ''AAA'') sample_bars) [stored ''BBB'' ''2023-01-01'']
     = ([stored ''BBB'' ''2023-01-01''], Inl OperationalError) \<and>
   fst (upsert_to_db sample_env (stamp_ticker (Str ''AAA'') sample_bars) [stored ''BBB'' ''2023-01-01''])
     = [stored ''BBB'' ''2023-01-01'', stored ''AAA'' ''2023-01-01'', stored ''AAA'' ''2023-06-30'']"
proof -
  let ?df = "stamp_ticker (Str ''AAA'') sample_bars"
  let ?t = "[stored ''BBB'' ''2023-01-01'']"
  have 1: "\<not> df_empty ?df \<and>
      params_list failing_env ?df = [stored ''AAA'' ''2023-01-01''] @ stored ''AAA'' ''2023-06-30'' # [] \<and>
      execute_rows (db_fails failing_env) [stored ''AAA'' ''2023-01-01''] ?t
        = Inr [stored ''BBB'' ''2023-01-01'', stored ''AAA'' ''2023-01-01''] \<and>
      db_fails failing_env [stored ''BBB'' ''2023-01-01'', stored ''AAA'' ''2023-01-01'']
        (stored ''AAA'' ''2023-06-30'')"
    by (simp add: sample_not_empty sample_params_failing failing_env_fails
        stored_def insert_or_replace_def key_def)
  have 2: "snd (upsert_to_db sample_env ?df ?t) = Inr PyNone \<and> \<not> df_empty ?df"
    by (simp add: upsert_to_db_def sample_not_empty sample_no_clash sample_params
        engine_begin_def sample_env_fails)
  show ?thesis
    using upsert_atomic [where e = failing_env and df = ?df and t = ?t
          and before = "[stored ''AAA'' ''2023-01-01'']" and p = "stored ''AAA'' ''2023-06-30''"
          and after = "[]" and mid = "[stored ''BBB'' ''2023-01-01'', stored ''AAA'' ''2023-01-01'']"
          and err = OperationalError] 1
      upsert_atomic [where e = sample_env and df = ?df and t = ?t and v = PyNone] 2
    by (simp add: sample_params stored_def insert_or_replace_def key_def)
qed

text \<open>
  Claim C6 as stated does not hold: after writing two rows the call has returned
  \<^verbatim>\<open>None\<close>, not the number 2.
\<close>

theorem upsert_returns_none_counterexample:
  "snd (reconcile sample_env (Str ''AAA'') sample_bars []) \<noteq>
     Inr (Num (real (length (fst (reconcile sample_env (Str ''AAA'') sample_bars [])))))"
  by (simp add: sample_reconcile)

text \<open>
  Claim C6, amended. \<open>upsert_to_db\<close> returns no count: a call that does not raise
  returns \<^verbatim>\<open>None\<close>, for an empty batch and for any other. For an empty batch it
  leaves the table alone. For a non-empty batch it upserts every row of the batch, one
  statement for each row of the frame.
\<close>

theorem upsert_returns_none:
  "(snd (upsert_to_db e df t) = Inr v \<longrightarrow> v = PyNone) \<and>
   (df_empty df \<longrightarrow> upsert_to_db e df t = (t, Inr PyNone)) \<and>
   (\<not> df_empty df \<and> snd (upsert_to_db e df t) = Inr v \<longrightarrow>
      fst (upsert_to_db e df t) = fold insert_or_replace (params_list e df) t \<and>
      length (params_list e df) = length (rows df))"
  using upsert_to_db_cases [of e df t] by (auto simp: length_params_list)

theorem upsert_returns_none_witness:
  "upsert_to_db sample_env ((stamp_ticker (Str ''AAA'') sample_bars)\<lparr>rows := []\<rparr>)
       [stored ''BBB'' ''2023-01-01'']
     = ([stored ''BBB'' ''2023-01-01''], Inr PyNone) \<and>
   fst (upsert_to_db sample_env (stamp_ticker (Str ''AAA'') sample_bars) []) =
     [stored ''AAA'' ''2023-01-01'', stored ''AAA'' ''2023-06-30''] \<and>
   length (params_list sample_env (stamp_ticker (Str ''AAA'') sample_bars)) = 2"
proof -
  let ?df = "stamp_ticker (Str ''AAA'') sample_bars"
  have 1: "df_empty (?df\<lparr>rows := []\<rparr>)"
    by (simp add: df_empty_def)
  have 2: "\<not> df_empty ?df \<and> snd (upsert_to_db sample_env ?df []) = Inr PyNone"
    using sample_reconcile by (simp add: sample_not_empty sample_no_date_column reconcile_def)
  have 3: "length (rows ?df) = 2"
    by (simp add: sample_rows_stamped)
  show ?thesis
    using upsert_returns_none [where e = sample_env and df = "?df\<lparr>rows := []\<rparr>"
          and t = "[stored ''BBB'' ''2023-01-01'']" and v = PyNone] 1
      upsert_returns_none [where e = sample_env and df = ?df and t = "[]" and v = PyNone] 2 3
    by (simp add: sample_params stored_def insert_or_replace_def key_def)
qed

text \<open>
  Claim C8. For a frame whose labels are distinct after renaming (as the provider's
  are), and for every row of it, each of the six price and volume fields of its
  parameter dictionary is \<^verbatim>\<open>None\<close> when no column of the frame carries that field,
  \<^verbatim>\<open>None\<close> when the cell is null-like (\<^verbatim>\<open>NaN\<close>, \<^verbatim>\<open>NaT\<close>, \<^verbatim>\<open>pd.NA\<close>,
  \<^verbatim>\<open>None\<close>), and the cell itself otherwise. Every row the call adds to the table is
  one of these dictionaries, and a missing column never makes the call raise.
\<close>

theorem null_coercion:
  "distinct (map rename_label (columns df)) \<longrightarrow>
   (i < length (rows df) \<and> (c, v) \<in> set (value_fields (params_list e df ! i)) \<longrightarrow>
      v = (case find (\<lambda>old. rename_label old = c) (columns df) of
             None \<Rightarrow> PyNone
           | Some old \<Rightarrow> if pd_isna ((rows df ! i) old) then PyNone else (rows df ! i) old)) \<and>
   (x \<in> set (fst (upsert_to_db e df t)) \<and> x \<notin> set t \<longrightarrow> x \<in> set (params_list e df)) \<and>
   ((\<forall>t p. \<not> db_fails e t p) \<longrightarrow> snd (upsert_to_db e df t) = Inr PyNone)"
proof (intro conjI impI)
  assume d: "distinct (map rename_label (columns df))"
    and a: "i < length (rows df) \<and> (c, v) \<in> set (value_fields (params_list e df ! i))"
  let ?n = "norm_row e (columns df) (rows df ! i)"
  have p: "params_list e df ! i = params_of ?n"
    using a d by (simp add: params_list_nth distinct_no_clash)
  have "c \<in> set value_cols \<and> v = param ?n c"
    using a unfolding p by (auto simp: value_fields_def params_of_def value_cols_def)
  then show "v = (case find (\<lambda>old. rename_label old = c) (columns df) of
             None \<Rightarrow> PyNone
           | Some old \<Rightarrow> if pd_isna ((rows df ! i) old) then PyNone else (rows df ! i) old)"
    using norm_row_value [of c e "columns df" "rows df ! i"] by simp
next
  assume "x \<in> set (fst (upsert_to_db e df t)) \<and> x \<notin> set t"
  then show "x \<in> set (params_list e df)"
    using set_upsert_to_db [of e df t] by auto
next
  assume d: "distinct (map rename_label (columns df))"
    and "\<forall>t p. \<not> db_fails e t p"
  then obtain t' where "execute_rows (db_fails e) (params_list e df) t = Inr t'"
    using execute_rows_never_fails [of "db_fails e"] by blast
  then show "snd (upsert_to_db e df t) = Inr PyNone"
    using d by (simp add: upsert_to_db_def engine_begin_def distinct_no_clash)
qed

theorem null_coercion_witness:
  "adj_close (params_list sample_env (stamp_ticker (Str ''AAA'') sample_bars) ! 0) = PyNone \<and>
   volume (params_list sample_env (stamp_ticker (Str ''AAA'') sample_bars) ! 0) = PyNone \<and>
   closep (params_list sample_env (stamp_ticker (Str ''AAA'') sample_bars) ! 0) = Num 1 \<and>
   stored ''AAA'' ''2023-01-01'' \<in> set (params_list sample_env (stamp_ticker (Str ''AAA'') sample_bars)) \<and>
   snd (upsert_to_db sample_env (stamp_ticker (Str ''AAA'') sample_bars) []) = Inr PyNone"
proof -
  let ?df = "stamp_ticker (Str ''AAA'') sample_bars"
  let ?p = "params_list sample_env ?df ! 0"
  have 1: "0 < length (rows ?df)"
    by (simp add: sample_rows_stamped)
  have 2: "(''adj_close'', adj_close ?p) \<in> set (value_fields ?p)"
    "(''volume'', volume ?p) \<in> set (value_fields ?p)"
    "(''close'', closep ?p) \<in> set (value_fields ?p)"
    by (simp_all add: value_fields_def)
  have 3: "stored ''AAA'' ''2023-01-01'' \<in> set (fst (upsert_to_db sample_env ?df [])) \<and>
           stored ''AAA'' ''2023-01-01'' \<notin> set []"
    using sample_reconcile by (simp add: reconcile_def sample_no_date_column)
  have 4: "\<forall>t p. \<not> db_fails sample_env t p"
    by (simp add: sample_env_fails)
  have 5: "distinct (map rename_label (columns ?df))"
    by (rule sample_distinct)
  show ?thesis
    using null_coercion [where e = sample_env and df = ?df and i = 0 and c = "''adj_close''"
          and v = "adj_close ?p" and x = "stored ''AAA'' ''2023-01-01''" and t = "[]"]
      null_coercion [where e = sample_env and df = ?df and i = 0 and c = "''volume''"
          and v = "volume ?p" and x = "stored ''AAA'' ''2023-01-01''" and t = "[]"]
      null_coercion [where e = sample_env and df = ?df and i = 0 and c = "''close''"
          and v = "closep ?p" and x = "stored ''AAA'' ''2023-01-01''" and t = "[]"]
      1 2 3 4 5
    by (simp add: sample_rows_stamped rename_label_def sample_bar_def)
qed

subsection \<open>The ticker loader\<close>

lemma upper_strip_nan: "upper (strip ''nan'') = ''NAN''"
  by code_simp

lemma cleaned_printed:
  "\<not> astype_keeps_missing e \<Longrightarrow> \<exists>s. str_upper (str_strip (astype_str e c)) = Str s"
  by (cases c) (simp_all add: astype_str_def)

lemma cleaned_kept:
  "astype_keeps_missing e \<Longrightarrow>
   pd_isna (str_upper (str_strip (astype_str e c))) = pd_isna c"
  by (cases c) (simp_all add: astype_str_def)

lemma dropna_printed:
  assumes "\<not> astype_keeps_missing e"
  shows "dropna (map str_upper (map str_strip (map (astype_str e) cs))) =
         map str_upper (map str_strip (map (astype_str e) cs))"
proof -
  have "\<not> pd_isna (str_upper (str_strip (astype_str e c)))" for c
    using cleaned_printed [OF assms, of c] by auto
  then show ?thesis
    by (simp add: dropna_def)
qed

lemma dropna_kept:
  assumes "astype_keeps_missing e"
  shows "dropna (map str_upper (map str_strip (map (astype_str e) cs))) =
         map str_upper (map str_strip (map (astype_str e) (filter (\<lambda>c. \<not> pd_isna c) cs)))"
proof (induction cs)
  case Nil
  show ?case by (simp add: dropna_def)
next
  case (Cons c cs)
  then show ?case
    using cleaned_kept [OF assms, of c] by (simp add: dropna_def)
qed

lemma set_unique: "set (unique cs) = set cs"
  by (simp add: unique_def)

lemma clean_tickers_text: "tk \<in> set (clean_tickers e cs) \<Longrightarrow> \<not> pd_isna tk"
  by (simp add: clean_tickers_def set_unique dropna_def)

lemma load_tickers_text:
  "load_tickers e df = Inr tks \<Longrightarrow> \<forall>tk\<in>set tks. \<not> pd_isna tk"
  by (auto simp: load_tickers_def clean_tickers_text split: if_splits)

text \<open>
  Claim C10 as stated does not hold with the \<^verbatim>\<open>astype(str)\<close> of pandas 3: the
  missing cell of the sample file stays missing, \<^verbatim>\<open>dropna\<close> removes it, and the
  loaded list has no ticker \<^verbatim>\<open>NAN\<close>.
\<close>

theorem loader_drops_missing_counterexample:
  "series sample_tickers ''Ticker'' = [Str '' aapl'', NaN, Str ''AAPL''] \<and>
   dropna (map str_upper (map str_strip
       (map (astype_str pandas3_env) (series sample_tickers ''Ticker'')))) =
     [Str ''AAPL'', Str ''AAPL''] \<and>
   load_tickers pandas3_env sample_tickers = Inr [Str ''AAPL'']"
proof -
  have 1: "upper (strip '' aapl'') = ''AAPL''" "upper (strip ''AAPL'') = ''AAPL''"
    by code_simp+
  have 2: "astype_keeps_missing pandas3_env"
    by (simp add: pandas3_env_def)
  show ?thesis
    by (simp add: load_tickers_def sample_tickers_def series_def clean_tickers_def dropna_def
        unique_def astype_str_def 1 2)
qed

text \<open>
  Claim C10, amended. When \<^verbatim>\<open>astype(str)\<close> prints a missing value (pandas 1 and 2),
  every element is a string by the time \<^verbatim>\<open>dropna\<close> runs, so \<^verbatim>\<open>dropna\<close> removes
  nothing; a missing cell has become the ticker \<^verbatim>\<open>NAN\<close> and is in the loaded list.
  When \<^verbatim>\<open>astype(str)\<close> keeps a missing value missing (pandas 3), \<^verbatim>\<open>dropna\<close>
  removes exactly the missing cells: the loaded list is that of the column without
  them.
\<close>

theorem loader_missing_entries:
  "(\<not> astype_keeps_missing e \<longrightarrow>
      dropna (map str_upper (map str_strip (map (astype_str e) cs))) =
        map str_upper (map str_strip (map (astype_str e) cs)) \<and>
      (NaN \<in> set cs \<longrightarrow> Str ''NAN'' \<in> set (clean_tickers e cs)) \<and>
      (''Ticker'' \<in> set (columns df) \<and> NaN \<in> set (series df ''Ticker'') \<longrightarrow>
         (\<exists>tks. load_tickers e df = Inr tks \<and> Str ''NAN'' \<in> set tks)) \<and>
      (''Ticker'' \<notin> set (columns df) \<and> ''symbol'' \<in> set (columns df) \<and>
         NaN \<in> set (series df ''symbol'') \<longrightarrow>
         (\<exists>tks. load_tickers e df = Inr tks \<and> Str ''NAN'' \<in> set tks))) \<and>
   (astype_keeps_missing e \<longrightarrow>
      dropna (map str_upper (map str_strip (map (astype_str e) cs))) =
        map str_upper (map str_strip (map (astype_str e) (filter (\<lambda>c. \<not> pd_isna c) cs))) \<and>
      clean_tickers e cs = clean_tickers e (filter (\<lambda>c. \<not> pd_isna c) cs))"
proof (intro conjI impI)
  assume printed: "\<not> astype_keeps_missing e"
  have nan: "Str ''NAN'' \<in> set (clean_tickers e xs)" if "NaN \<in> set xs" for xs
  proof -
    have "str_upper (str_strip (astype_str e NaN)) = Str ''NAN''"
      using printed by (simp add: astype_str_def upper_strip_nan)
    then have "Str ''NAN'' \<in> set (map str_upper (map str_strip (map (astype_str e) xs)))"
      using that by force
    then show ?thesis
      by (simp only: clean_tickers_def set_unique dropna_printed [OF printed])
  qed
  show "dropna (map str_upper (map str_strip (map (astype_str e) cs))) =
        map str_upper (map str_strip (map (astype_str e) cs))"
    using printed by (rule dropna_printed)
  show "Str ''NAN'' \<in> set (clean_tickers e cs)" if "NaN \<in> set cs"
    using that by (rule nan)
  show "\<exists>tks. load_tickers e df = Inr tks \<and> Str ''NAN'' \<in> set tks"
    if "''Ticker'' \<in> set (columns df) \<and> NaN \<in> set (series df ''Ticker'')"
    using that nan [of "series df ''Ticker''"] by (simp add: load_tickers_def)
  show "\<exists>tks. load_tickers e df = Inr tks \<and> Str ''NAN'' \<in> set tks"
    if "''Ticker'' \<notin> set (columns df) \<and> ''symbol'' \<in> set (columns df) \<and>
         NaN \<in> set (series df ''symbol'')"
    using that nan [of "series df ''symbol''"] by (simp add: load_tickers_def)
next
  assume kept: "astype_keeps_missing e"
  show d: "dropna (map str_upper (map str_strip (map (astype_str e) cs))) =
        map str_upper (map str_strip (map (astype_str e) (filter (\<lambda>c. \<not> pd_isna c) cs)))"
    using kept by (rule dropna_kept)
  have "dropna (map str_upper (map str_strip
            (map (astype_str e) (filter (\<lambda>c. \<not> pd_isna c) cs)))) =
        map str_upper (map str_strip (map (astype_str e) (filter (\<lambda>c. \<not> pd_isna c) cs)))"
    using dropna_kept [OF kept, of "filter (\<lambda>c. \<not> pd_isna c) cs"] by simp
  then show "clean_tickers e cs = clean_tickers e (filter (\<lambda>c. \<not> pd_isna c) cs)"
    using d by (simp only: clean_tickers_def)
qed

theorem loader_missing_entries_witness:
  "load_tickers sample_env sample_tickers = Inr [Str ''AAPL'', Str ''NAN''] \<and>
   Str ''NAN'' \<in> set (clean_tickers sample_env (series sample_tickers ''Ticker'')) \<and>
   (\<exists>tks. load_tickers sample_env (sample_tickers\<lparr>columns := [''symbol'']\<rparr>) = Inr tks \<and>
      Str ''NAN'' \<in> set tks) \<and>
   clean_tickers pandas3_env [Str '' aapl'', NaN, Str ''AAPL''] =
     clean_tickers pandas3_env [Str '' aapl'', Str ''AAPL'']"
proof -
  have 0: "\<not> astype_keeps_missing sample_env" "astype_keeps_missing pandas3_env"
    by (simp_all add: sample_env_def pandas3_env_def)
  have 1: "''Ticker'' \<in> set (columns sample_tickers) \<and> NaN \<in> set (series sample_tickers ''Ticker'')"
    by (simp add: sample_tickers_def series_def)
  have 2: "''Ticker'' \<notin> set (columns (sample_tickers\<lparr>columns := [''symbol'']\<rparr>)) \<and>
      ''symbol'' \<in> set (columns (sample_tickers\<lparr>columns := [''symbol'']\<rparr>)) \<and>
      NaN \<in> set (series (sample_tickers\<lparr>columns := [''symbol'']\<rparr>) ''symbol'')"
    by (simp add: sample_tickers_def series_def)
  have 3: "upper (strip '' aapl'') = ''AAPL''" "upper (strip ''AAPL'') = ''AAPL''"
    by code_simp+
  have 4: "load_tickers sample_env sample_tickers = Inr [Str ''AAPL'', Str ''NAN'']"
    by (simp add: load_tickers_def sample_tickers_def series_def clean_tickers_def dropna_def
        unique_def astype_str_def 0 3 upper_strip_nan)
  show ?thesis
    using loader_missing_entries [of sample_env "series sample_tickers ''Ticker''" sample_tickers]
      loader_missing_entries [of sample_env "[]" "sample_tickers\<lparr>columns := [''symbol'']\<rparr>"]
      loader_missing_entries [of pandas3_env "[Str '' aapl'', NaN, Str ''AAPL'']" sample_tickers]
      0 1 2 4
    by simp
qed

subsection \<open>The staleness sweep\<close>

lemma remove_abondoned_data_frame:
  "stock_data (fst (remove_abondoned_data e today db)) = stock_data db"
  by (simp add: remove_abondoned_data_def engine_begin_def
      split: option.splits sum.splits prod.splits)

text \<open>
  Claim C9. Whatever the database holds and however the sweep ends, the table
  \<^verbatim>\<open>stock_data\<close> afterwards is the table before: no price row is deleted or changed,
  those of the abandoned symbols included.
\<close>

theorem sweep_keeps_stock_data:
  "stock_data (fst (remove_abondoned_data e today db)) = stock_data db"
  by (rule remove_abondoned_data_frame)

theorem sweep_keeps_stock_data_witness:
  "stock_data (fst (remove_abondoned_data sample_env 19539 sample_db)) =
     Some [stored ''OLD'' ''2023-01-01'', stored ''NEW'' ''2023-06-30'']"
  using sweep_keeps_stock_data [of sample_env 19539 sample_db]
  by (simp add: sample_db_def)

text \<open>
  Claim C5 at a database where the table \<^verbatim>\<open>tickers\<close> exists and one symbol is
  abandoned (\<^verbatim>\<open>OLD\<close>, 181 days behind on day 19539): the script ends with
  \<^verbatim>\<open>NameError\<close> and \<^verbatim>\<open>OLD\<close> is still in \<^verbatim>\<open>tickers\<close>.
\<close>

theorem sweep_raises_name_error:
  "remove_abondoned_data sample_env 19539 sample_db = (sample_db, Inl NameError) \<and>
   tickers (fst (remove_abondoned_data sample_env 19539 sample_db)) = Some [''OLD'', ''NEW'']"
proof -
  have "select_abandoned sample_env 19539
          [(Str ''NEW'', Some ''2023-06-30''), (Str ''OLD'', Some ''2023-01-01'')] = Inr [Str ''OLD'']"
    by (simp add: select_abandoned_def sample_env_def sample_parse_def cutoff_days_def)
  then show ?thesis
    by (simp add: remove_abondoned_data_def sample_db_def sample_last_dates engine_begin_def)
qed

text \<open>
  The rest of the sweep does what is expected of it: the selection is exactly the
  symbols more than \<open>cutoff_days\<close> behind, and without a table \<^verbatim>\<open>tickers\<close> the
  script reports the skip and changes nothing.
\<close>

lemma days_since_update_exact:
  "parse_last_dates e xs = Inr ds \<Longrightarrow> days_since_update today ds = Inr ys \<Longrightarrow>
   set ys = {(tk, today - D) | tk s D. (tk, Some s) \<in> set xs \<and> to_datetime e s = Some D}"
proof (induction xs arbitrary: ds ys)
  case Nil
  then show ?case by simp
next
  case (Cons x xs)
  obtain tk ld where x: "x = (tk, ld)"
    by (cases x)
  show ?case
  proof (cases ld)
    case None
    then obtain ds' where "ds = (tk, None) # ds'"
      using Cons.prems(1) x by (auto split: sum.splits)
    then have "days_since_update today ds = Inl TypeError"
      by simp
    then show ?thesis
      using Cons.prems(2) by simp
  next
    case (Some s)
    then obtain D ds' where D: "to_datetime e s = Some D"
      and ds': "parse_last_dates e xs = Inr ds'" and ds: "ds = (tk, Some D) # ds'"
      using Cons.prems(1) x by (auto split: option.splits sum.splits)
    then obtain ys' where ys': "days_since_update today ds' = Inr ys'"
      and ys: "ys = (tk, today - D) # ys'"
      using Cons.prems(2) by (auto split: sum.splits)
    have ih: "set ys' = {(tk, today - D) | tk s D. (tk, Some s) \<in> set xs \<and> to_datetime e s = Some D}"
      using ds' ys' by (rule Cons.IH)
    have "set ys = insert (tk, today - D) (set ys')"
      using ys by simp
    then show ?thesis
      unfolding ih using x Some D by auto
  qed
qed

lemma select_abandoned_exact:
  "select_abandoned e today xs = Inr ab \<Longrightarrow>
   set ab = {tk. \<exists>s D. (tk, Some s) \<in> set xs \<and> to_datetime e s = Some D \<and> today - D > cutoff_days}"
proof -
  assume "select_abandoned e today xs = Inr ab"
  then obtain ds ys where ds: "parse_last_dates e xs = Inr ds"
    and ys: "days_since_update today ds = Inr ys"
    and ab: "ab = map fst (filter (\<lambda>(tk, n). n > cutoff_days) ys)"
    by (auto simp: select_abandoned_def split: sum.splits)
  have ys_set: "set ys = {(tk, today - D) | tk s D. (tk, Some s) \<in> set xs \<and> to_datetime e s = Some D}"
    using ds ys by (rule days_since_update_exact)
  have 1: "set ab = {tk. \<exists>n. (tk, n) \<in> set ys \<and> n > cutoff_days}"
    unfolding ab by force
  have 2: "(tk, n) \<in> set ys \<longleftrightarrow>
             (\<exists>s D. (tk, Some s) \<in> set xs \<and> to_datetime e s = Some D \<and> n = today - D)" for tk n
    unfolding ys_set by blast
  show ?thesis
    unfolding 1 2 by blast
qed

lemma sweep_without_tickers_table:
  "stock_data db = Some t \<Longrightarrow> tickers db = None \<Longrightarrow> select_abandoned e today (last_dates t) = Inr ab \<Longrightarrow>
   remove_abondoned_data e today db = (db, Inr (ab, No_tickers_table_skipping))"
  by (simp add: remove_abondoned_data_def)

subsection \<open>The primary key\<close>

lemma pk_unique_insert:
  assumes "pk_unique t" and "keyed p"
  shows "pk_unique (insert_or_replace p t)"
proof -
  have "distinct (map key (filter (\<lambda>x. key x \<noteq> key p) t))"
    using assms(1) by (simp add: pk_unique_def distinct_map_filter)
  moreover have "key p \<notin> key ` set (filter (\<lambda>x. key x \<noteq> key p) t)"
    by auto
  ultimately show ?thesis
    using assms(2) by (simp add: pk_unique_def insert_or_replace_keyed)
qed

lemma pk_unique_fold:
  "pk_unique t \<Longrightarrow> \<forall>p\<in>set ps. keyed p \<Longrightarrow> pk_unique (fold insert_or_replace ps t)"
proof (induction ps arbitrary: t)
  case Nil
  then show ?case by simp
next
  case (Cons p ps)
  then have "pk_unique (insert_or_replace p t)"
    by (simp add: pk_unique_insert)
  then show ?case
    using Cons by simp
qed

lemma pk_unique_reconcile:
  assumes "pk_unique t" and "\<not> pd_isna tk"
  shows "pk_unique (fst (reconcile e tk df t))"
proof (cases "''Date'' \<in> set (bar_columns df)")
  case True
  then show ?thesis using assms(1) by (simp add: reconcile_def)
next
  case False
  let ?df = "stamp_ticker tk df"
  have "\<forall>p\<in>set (params_list e ?df). keyed p"
    using params_keyed_stamped [of _ e tk df] assms(2) by blast
  then have "pk_unique (fold insert_or_replace (params_list e ?df) t)"
    using assms(1) by (simp add: pk_unique_fold)
  then show ?thesis
    using upsert_to_db_cases [of e ?df t] assms(1) False by (auto simp: reconcile_def)
qed

lemma fst_sync_ticker:
  "fst (sync_ticker e today tk t) = t \<or>
   (\<exists>df. fst (sync_ticker e today tk t) = fst (reconcile e tk df t))"
proof (cases "plan e today (get_latest_date t tk)")
  case (Inl err)
  then show ?thesis by (simp add: sync_ticker_def)
next
  case (Inr d)
  show ?thesis
  proof (cases d)
    case SKIP_ABANDONED
    then show ?thesis using Inr by (simp add: sync_ticker_def)
  next
    case SKIP_CURRENT
    then show ?thesis using Inr by (simp add: sync_ticker_def)
  next
    case (FETCH start_date end_date)
    show ?thesis
    proof (cases "yf_download e tk start_date (today + 1)")
      case (Inl err)
      then show ?thesis using Inr FETCH by (simp add: sync_ticker_def)
    next
      case (Inr df)
      have "fst (sync_ticker e today tk t) = (if bars_empty df then t else fst (reconcile e tk df t))"
        using \<open>plan e today (get_latest_date t tk) = Inr d\<close> FETCH Inr
        by (simp add: sync_ticker_def split: prod.splits sum.splits)
      then show ?thesis
        by (cases "bars_empty df") auto
    qed
  qed
qed

lemma pk_unique_sync_ticker:
  assumes "pk_unique t" and "\<not> pd_isna tk"
  shows "pk_unique (fst (sync_ticker e today tk t))"
  using fst_sync_ticker [of e today tk t] pk_unique_reconcile [OF assms] assms(1) by auto

lemma pk_unique_sync_loop:
  "pk_unique t \<Longrightarrow> \<forall>tk\<in>set tks. \<not> pd_isna tk \<Longrightarrow> pk_unique (fst (sync_loop e today tks t))"
proof (induction tks arbitrary: t)
  case Nil
  then show ?case by simp
next
  case (Cons tk tks)
  obtain t1 r1 where s: "sync_ticker e today tk t = (t1, r1)"
    by (cases "sync_ticker e today tk t")
  have u1: "pk_unique t1"
    using pk_unique_sync_ticker [of t tk e today] Cons.prems s by simp
  show ?case
  proof (cases r1)
    case (Inl err)
    then show ?thesis using s u1 by simp
  next
    case (Inr out)
    obtain t2 r2 where l: "sync_loop e today tks t1 = (t2, r2)"
      by (cases "sync_loop e today tks t1")
    have "pk_unique t2"
      using Cons.IH [of t1] u1 Cons.prems(2) l by simp
    then show ?thesis
      using s Inr l by (cases r2) simp_all
  qed
qed

lemma pk_unique_download_data:
  assumes "pk_unique_db db"
  shows "pk_unique_db (fst (download_data e today df_tickers db))"
proof (cases "load_tickers e df_tickers")
  case (Inl err)
  then show ?thesis using assms by (simp add: download_data_def)
next
  case (Inr tks)
  have "pk_unique (create_table db)"
    using assms by (simp add: pk_unique_db_def create_table_def pk_unique_def split: option.splits)
  then have "pk_unique (fst (sync_loop e today tks (create_table db)))"
    using load_tickers_text [OF Inr] by (simp add: pk_unique_sync_loop)
  then show ?thesis
    using Inr by (auto simp: download_data_def pk_unique_db_def split: prod.splits)
qed

lemma length_filter_key:
  "distinct (map key t) \<Longrightarrow> k \<in> key ` set t \<Longrightarrow>
   Suc (length (filter (\<lambda>x. key x \<noteq> k) t)) = length t"
proof (induction t)
  case Nil
  then show ?case by simp
next
  case (Cons a t)
  show ?case
  proof (cases "key a = k")
    case True
    then have "k \<notin> key ` set t"
      using Cons.prems(1) by auto
    then have "filter (\<lambda>x. key x \<noteq> k) t = t"
      by (auto simp: filter_id_conv)
    then show ?thesis
      using True by simp
  next
    case False
    then show ?thesis
      using Cons by auto
  qed
qed

text \<open>
  Claim C2. A database whose table has no two rows with the same (ticker, date) is in
  that state again after a run of \<^verbatim>\<open>download_data.py\<close> and after a run of
  \<^verbatim>\<open>remove_abondoned_data.py\<close>, however the run ends. An upsert of a key that is
  present replaces the row: the table keeps its length, holds the new row, and holds no
  other row with that key.
\<close>

theorem primary_key_unique:
  "(pk_unique_db db \<longrightarrow>
      pk_unique_db (fst (download_data e today df_tickers db)) \<and>
      pk_unique_db (fst (remove_abondoned_data e today db))) \<and>
   (pk_unique t \<and> ticker p \<noteq> PyNone \<and> date p \<noteq> PyNone \<and> key p \<in> key ` set t \<longrightarrow>
      length (insert_or_replace p t) = length t \<and>
      p \<in> set (insert_or_replace p t) \<and>
      (\<forall>x\<in>set (insert_or_replace p t). key x = key p \<longrightarrow> x = p) \<and>
      pk_unique (insert_or_replace p t))"
proof (intro conjI impI)
  assume "pk_unique_db db"
  then show "pk_unique_db (fst (download_data e today df_tickers db))"
    by (rule pk_unique_download_data)
next
  assume "pk_unique_db db"
  then show "pk_unique_db (fst (remove_abondoned_data e today db))"
    by (simp add: pk_unique_db_def remove_abondoned_data_frame)
next
  assume a: "pk_unique t \<and> ticker p \<noteq> PyNone \<and> date p \<noteq> PyNone \<and> key p \<in> key ` set t"
  then have k: "keyed p"
    by (simp add: keyed_def)
  show "length (insert_or_replace p t) = length t"
    using a length_filter_key [of t "key p"] by (simp add: insert_or_replace_keyed k pk_unique_def)
  show "p \<in> set (insert_or_replace p t)"
    by (simp add: insert_or_replace_keyed k)
  show "\<forall>x\<in>set (insert_or_replace p t). key x = key p \<longrightarrow> x = p"
    by (auto simp: insert_or_replace_keyed k)
  show "pk_unique (insert_or_replace p t)"
    using a k by (simp add: pk_unique_insert)
qed

theorem primary_key_unique_witness:
  "pk_unique_db sample_db \<and>
   pk_unique_db (fst (download_data sample_env 19539 sample_tickers sample_db)) \<and>
   pk_unique_db (fst (remove_abondoned_data sample_env 19539 sample_db)) \<and>
   insert_or_replace ((stored ''OLD'' ''2023-01-01'')\<lparr>volume := Num 7\<rparr>)
       [stored ''OLD'' ''2023-01-01'', stored ''NEW'' ''2023-06-30''] =
     [stored ''NEW'' ''2023-06-30'', (stored ''OLD'' ''2023-01-01'')\<lparr>volume := Num 7\<rparr>]"
proof -
  let ?t = "[stored ''OLD'' ''2023-01-01'', stored ''NEW'' ''2023-06-30'']"
  let ?p = "(stored ''OLD'' ''2023-01-01'')\<lparr>volume := Num 7\<rparr>"
  have 1: "pk_unique_db sample_db"
    by (simp add: pk_unique_db_def pk_unique_def sample_db_def stored_def key_def)
  have 2: "pk_unique ?t \<and> ticker ?p \<noteq> PyNone \<and> date ?p \<noteq> PyNone \<and> key ?p \<in> key ` set ?t"
    by (simp add: pk_unique_def stored_def key_def)
  have 3: "insert_or_replace ?p ?t = [stored ''NEW'' ''2023-06-30'', ?p]"
    by (simp add: insert_or_replace_def stored_def key_def)
  show ?thesis
    using primary_key_unique [where db = sample_db and e = sample_env and today = 19539
          and df_tickers = sample_tickers and t = ?t and p = ?p] 1 2 3
    by simp
qed

end
